theory Spec2Isabelle
  imports Complex_Main
begin

unbundle bit_operations_syntax

section \<open>The box handle of \<open>mcedit2/handles/boxhandle.py\<close>\<close>

text \<open>
  \<open>BoxHandle\<close> is a resizable selection box driven by three mouse events. The
  embedding follows the Python method by method. Python floats are modelled as
  \<open>real\<close> (no NaN, no infinities, no rounding of the arithmetic), Python ints as
  \<open>int\<close>, face numbers and axis numbers as \<open>nat\<close>. An attribute holding
  \<open>None\<close> is an \<open>option\<close>.
\<close>

subsection \<open>Exceptions\<close>

datatype error = AssertionError | TypeError | AttributeError | IndexError | ZeroDivisionError

subsection \<open>Vectors\<close>

type_synonym 'a vec3 = "'a \<times> 'a \<times> 'a"

text \<open>
  \<open>component v i\<close> is \<open>v[i]\<close> for an index \<open>i < 3\<close>. It is used directly only
  where the source computes the index with \<open>% 3\<close> or after the model has checked
  \<open>i < 3\<close>; \<open>getitem\<close> is the indexing that raises.
\<close>

fun component :: "'a vec3 \<Rightarrow> nat \<Rightarrow> 'a" where
  "component (x, y, z) i = (if i = 0 then x else if i = 1 then y else z)"

definition getitem :: "'a vec3 \<Rightarrow> nat \<Rightarrow> error + 'a" where
  "getitem v i = (if i < 3 then Inr (component v i) else Inl IndexError)"

text \<open>\<open>xs[i] = a\<close> on a three-element list, for \<open>i < 3\<close>.\<close>

fun setitem :: "'a vec3 \<Rightarrow> nat \<Rightarrow> 'a \<Rightarrow> 'a vec3" where
  "setitem (x, y, z) i a =
     (if i = 0 then (a, y, z) else if i = 1 then (x, a, z) else (x, y, a))"

text \<open>
  Modelled from the spec: \<open>mceditlib.geometry.Vector\<close> is missing. A vector is a
  three-component tuple with component-wise \<open>+\<close>, multiplication by a scalar,
  \<open>abs()\<close> and \<open>intfloor()\<close>. Being a non-empty tuple, a vector that is set is
  truthy whatever its components are.
\<close>

fun vadd :: "('a::plus) vec3 \<Rightarrow> 'a vec3 \<Rightarrow> 'a vec3" where
  "vadd (a, b, c) (x, y, z) = (a + x, b + y, c + z)"

fun vscale :: "real vec3 \<Rightarrow> real \<Rightarrow> real vec3" where
  "vscale (a, b, c) s = (a * s, b * s, c * s)"

fun vabs :: "real vec3 \<Rightarrow> real vec3" where
  "vabs (a, b, c) = (\<bar>a\<bar>, \<bar>b\<bar>, \<bar>c\<bar>)"

fun intfloor :: "real vec3 \<Rightarrow> int vec3" where
  "intfloor (a, b, c) = (\<lfloor>a\<rfloor>, \<lfloor>b\<rfloor>, \<lfloor>c\<rfloor>)"

text \<open>Python's true division \<open>a / b\<close> on floats.\<close>

definition pydiv :: "real \<Rightarrow> real \<Rightarrow> error + real" where
  "pydiv a b = (if b = 0 then Inl ZeroDivisionError else Inr (a / b))"

text \<open>Python's \<open>a or b\<close> on floats: \<open>b\<close> when \<open>a\<close> is zero.\<close>

definition py_or :: "real \<Rightarrow> real \<Rightarrow> real" where
  "py_or a b = (if a = 0 then b else a)"

subsection \<open>Boxes, faces, rays\<close>

text \<open>
  Modelled from the spec: \<open>mceditlib.selection.BoundingBox\<close> is missing. A box is
  an integer origin and an integer size; the constructor copies its two
  arguments; two boxes are equal iff origin and size match component-wise;
  \<open>union\<close> is the smallest box containing both; a box that is set is truthy.
\<close>

record box =
  origin :: "int vec3"
  bsize :: "int vec3"

definition BoundingBox :: "int vec3 \<Rightarrow> int vec3 \<Rightarrow> box" where
  "BoundingBox org sz = \<lparr>origin = org, bsize = sz\<rparr>"

definition maximum :: "box \<Rightarrow> int vec3" where
  "maximum b = vadd (origin b) (bsize b)"

fun vmin :: "int vec3 \<Rightarrow> int vec3 \<Rightarrow> int vec3" where
  "vmin (a, b, c) (x, y, z) = (min a x, min b y, min c z)"

fun vmax :: "int vec3 \<Rightarrow> int vec3 \<Rightarrow> int vec3" where
  "vmax (a, b, c) (x, y, z) = (max a x, max b y, max c z)"

fun vsub :: "int vec3 \<Rightarrow> int vec3 \<Rightarrow> int vec3" where
  "vsub (a, b, c) (x, y, z) = (a - x, b - y, c - z)"

definition union_box :: "box \<Rightarrow> box \<Rightarrow> box" where
  "union_box a b =
     (let lo = vmin (origin a) (origin b);
          hi = vmax (maximum a) (maximum b)
      in BoundingBox lo (vsub hi lo))"

text \<open>
  Modelled from the spec: \<open>mceditlib.faces\<close> is missing. A face is an integer;
  \<open>face >> 1\<close> is its axis (0 = X, 1 = Y, 2 = Z), which the face also exposes as
  \<open>dimension\<close>. The "Y increasing" face is on axis 1 with \<open>face & 1 == 0\<close>
  (the creation scenario of the spec sweeps the plane Y = 1 from voxel
  \<open>(0,0,0)\<close>), so it is face 2.
\<close>

type_synonym face = nat

definition dimension :: "face \<Rightarrow> nat" where
  "dimension f = drop_bit 1 f"

definition FaceYIncreasing :: face where
  "FaceYIncreasing = 2"

text \<open>A ray unpacks as \<open>nearPoint, normal = ray\<close>.\<close>

type_synonym ray = "real vec3 \<times> real vec3"

text \<open>
  Modelled from the spec: \<open>Ray.intersectPlane\<close> of \<open>mcedit2.util.geometry\<close> is
  missing. \<open>distance = planeCoordinate - nearPoint[axis]\<close>,
  \<open>scale = distance / normal[axis]\<close> with 0.0001 substituted for a zero
  \<open>normal[axis]\<close>, \<open>point = normal * scale + nearPoint\<close>. Its caller has checked
  \<open>axis < 3\<close>.
\<close>

definition intersectPlane :: "ray \<Rightarrow> nat \<Rightarrow> real \<Rightarrow> real vec3" where
  "intersectPlane r axis planeCoordinate =
     (let (nearPoint, normal) = r;
          distance = planeCoordinate - component nearPoint axis;
          scale = distance / py_or (component normal axis) (1 / 10000)
      in vadd (vscale normal scale) nearPoint)"

text \<open>
  \<open>boxFaceUnderCursor\<close> of \<open>mcedit2.rendering.selection\<close> is an external
  collaborator: every function that calls it takes it as the parameter \<open>fuc\<close>.
  It returns the intersection point and the face hit, or no face.
\<close>

type_synonym face_under_cursor = "box option \<Rightarrow> ray \<Rightarrow> real vec3 \<times> face option"

subsection \<open>Events and the handle's state\<close>

text \<open>
  The fields of a mouse event the handle reads: \<open>event.ray\<close>,
  \<open>event.modifiers()\<close>, \<open>event.view.cameraVector\<close>, \<open>event.blockPosition\<close>.
\<close>

record event =
  ray :: ray
  modifiers :: nat
  cameraVector :: "real vec3"
  blockPosition :: "int vec3"

text \<open>The two signals; \<open>emitted\<close> below is the trace of the emissions, oldest first.\<close>

datatype signal =
  BoundsChanged "box option"
| BoundsChangedDone "box option" bool

text \<open>
  The handle's attributes, those of its two child nodes flattened in
  (\<open>self.boxNode.selectionBox\<close> is \<open>boxNode_selectionBox\<close>), and the trace of
  emitted signals. \<open>resizable\<close> is the attribute \<open>_resizable\<close>.
\<close>

record handle =
  boxNode_selectionBox :: "box option"
  boxNode_filled :: bool
  faceDragNode_selectionBox :: "box option"
  faceDragNode_visible :: bool
  faceDragNode_face :: "face option"
  faceDragNode_color :: "real vec3"
  dragResizeFace :: "face option"
  dragResizeDimension :: "nat option"
  dragResizePosition :: "real option"
  dragStartPoint :: "int vec3 option"
  dragStartFace :: "face option"
  oldBounds :: "box option"
  hiliteFace :: bool
  resizable :: bool
  modifier :: nat
  isMoving :: bool
  emitted :: "signal list"

definition ShiftModifier :: nat where
  "ShiftModifier = 33554432"

definition moveFaceColor :: "real vec3" where
  "moveFaceColor = (3 / 10, 9 / 10, 3 / 10)"

definition resizeFaceColor :: "real vec3" where
  "resizeFaceColor = (3 / 10, 6 / 10, 9 / 10)"

text \<open>
  The class attributes and \<open>__init__\<close>. The face node's own initial attributes
  belong to \<open>SelectionFaceNode\<close>; the handle writes each of them before it
  reads it.
\<close>

definition BoxHandle_init :: handle where
  "BoxHandle_init =
     \<lparr>boxNode_selectionBox = None, boxNode_filled = False,
      faceDragNode_selectionBox = None, faceDragNode_visible = False,
      faceDragNode_face = None, faceDragNode_color = resizeFaceColor,
      dragResizeFace = None, dragResizeDimension = None, dragResizePosition = None,
      dragStartPoint = None, dragStartFace = None, oldBounds = None,
      hiliteFace = True, resizable = True, modifier = ShiftModifier,
      isMoving = False, emitted = []\<rparr>"

subsection \<open>The properties \<open>bounds\<close> and \<open>resizable\<close>\<close>

abbreviation bounds :: "handle \<Rightarrow> box option" where
  "bounds h \<equiv> boxNode_selectionBox h"

definition set_bounds :: "box option \<Rightarrow> handle \<Rightarrow> handle" where
  "set_bounds b h =
     (if b \<noteq> boxNode_selectionBox h
      then h\<lparr>boxNode_selectionBox := b,
             faceDragNode_selectionBox := b,
             emitted := emitted h @ [BoundsChanged b]\<rparr>
      else h)"

definition moveModifierDown :: "handle \<Rightarrow> event \<Rightarrow> bool" where
  "moveModifierDown h ev = (modifiers ev AND modifier h \<noteq> 0)"

text \<open>
  A method that can raise returns the exception, if any, and the handle as the
  call leaves it.
\<close>

type_synonym outcome = "error option \<times> handle"

definition set_resizable :: "handle \<Rightarrow> bool \<Rightarrow> outcome" where
  "set_resizable h v =
     (if v \<or> bounds h \<noteq> None then (None, h\<lparr>resizable := v\<rparr>)
      else (Some AssertionError, h))"

subsection \<open>Resize helpers\<close>

definition dragResizePoint :: "handle \<Rightarrow> ray \<Rightarrow> error + real vec3" where
  "dragResizePoint h r =
     (let (nearPoint, normal) = r in
      case dragResizeDimension h of
        None \<Rightarrow> Inl TypeError
      | Some dm \<Rightarrow>
          (case getitem nearPoint dm of
             Inl e \<Rightarrow> Inl e
           | Inr c \<Rightarrow>
               (case dragResizePosition h of
                  None \<Rightarrow> Inl TypeError
                | Some pos \<Rightarrow>
                    (let distance = pos - c in
                     case pydiv distance (py_or (component normal dm) (1 / 10000)) of
                       Inl e \<Rightarrow> Inl e
                     | Inr scale \<Rightarrow> Inr (vadd (vscale normal scale) nearPoint)))))"

text \<open>
  Lines 109 to 121 of \<open>boxFromDragResize\<close>: the two flat boxes \<open>thisSide\<close> (the
  face being dragged) and \<open>otherSide\<close> (the face that stays).
\<close>

definition dragResizeSides :: "handle \<Rightarrow> box option \<Rightarrow> ray \<Rightarrow> error + (box \<times> box)" where
  "dragResizeSides h b r =
     (case dragResizePoint h r of
        Inl e \<Rightarrow> Inl e
      | Inr point \<Rightarrow>
          (case dragResizeFace h of
             None \<Rightarrow> Inl TypeError
           | Some f \<Rightarrow>
               (let side = f AND 1; dragdim = drop_bit 1 f in
                case b of
                  None \<Rightarrow> Inl AttributeError
                | Some bx \<Rightarrow>
                    if \<not> dragdim < 3 then Inl IndexError
                    else
                      (let origin0 = origin bx;
                           size0 = bsize bx;
                           origin1 = (if side \<noteq> 0
                                      then setitem origin0 dragdim
                                             (component origin0 dragdim + component size0 dragdim)
                                      else origin0);
                           size1 = setitem size0 dragdim 0;
                           otherSide = BoundingBox origin1 size1;
                           origin2 = setitem origin1 dragdim \<lfloor>component point dragdim + 1 / 2\<rfloor>;
                           thisSide = BoundingBox origin2 size1
                       in Inr (thisSide, otherSide)))))"

definition boxFromDragResize :: "handle \<Rightarrow> box option \<Rightarrow> ray \<Rightarrow> error + box" where
  "boxFromDragResize h b r =
     (case dragResizeSides h b r of
        Inl e \<Rightarrow> Inl e
      | Inr (thisSide, otherSide) \<Rightarrow> Inr (union_box thisSide otherSide))"

definition boxFromDragSelect :: "handle \<Rightarrow> ray \<Rightarrow> error + box" where
  "boxFromDragSelect h r =
     (case dragStartFace h of
        None \<Rightarrow> Inl TypeError
      | Some f \<Rightarrow>
          (let dm = drop_bit 1 f in
           if \<not> dm < 3 then Inl IndexError
           else
             (case dragStartPoint h of
                None \<Rightarrow> Inl TypeError
              | Some point0 \<Rightarrow>
                  (let size1 = setitem (1, 1, 1) dm 0;
                       point = (if f AND 1 = 0
                                then vadd point0 (setitem (0, 0, 0) dm 1)
                                else point0);
                       startBox = BoundingBox point size1;
                       endPoint = intersectPlane r dm (of_int (component point dm));
                       endBox = BoundingBox (intfloor endPoint) size1
                   in Inr (union_box startBox endBox)))))"

subsection \<open>Resize\<close>

definition beginResize :: "face_under_cursor \<Rightarrow> handle \<Rightarrow> event \<Rightarrow> bool \<times> handle" where
  "beginResize fuc h ev =
     (case fuc (bounds h) (ray ev) of
        (point, Some f) \<Rightarrow>
          (let h1 = h\<lparr>dragResizeFace := Some f\<rparr>;
               dim0 = (dimension f + 1) mod 3;
               dim1 = (dim0 + 1) mod 3;
               vector = vabs (cameraVector ev);
               dm = (if component vector dim1 > component vector dim0 then dim1 else dim0);
               h2 = h1\<lparr>dragResizeDimension := Some dm\<rparr>;
               h3 = h2\<lparr>dragResizePosition := Some (component point dm)\<rparr>;
               h4 = h3\<lparr>oldBounds := bounds h3\<rparr>
           in (True, h4))
      | (point, None) \<Rightarrow> (False, set_bounds None h))"

definition continueResize :: "handle \<Rightarrow> event \<Rightarrow> outcome" where
  "continueResize h ev =
     (case boxFromDragResize h (oldBounds h) (ray ev) of
        Inl e \<Rightarrow> (Some e, h)
      | Inr newBox \<Rightarrow>
          (let h1 = h\<lparr>faceDragNode_selectionBox := Some newBox\<rparr>;
               h2 = h1\<lparr>faceDragNode_visible := True\<rparr>
           in case boxFromDragResize h2 (oldBounds h2) (ray ev) of
                Inl e \<Rightarrow> (Some e, h2)
              | Inr newBox2 \<Rightarrow> (None, set_bounds (Some newBox2) h2)))"

definition endResize :: "handle \<Rightarrow> event \<Rightarrow> outcome" where
  "endResize h ev =
     (case boxFromDragResize h (oldBounds h) (ray ev) of
        Inl e \<Rightarrow> (Some e, h)
      | Inr newBox \<Rightarrow>
          (let h1 = set_bounds (Some newBox) h;
               h2 = h1\<lparr>oldBounds := None\<rparr>;
               h3 = h2\<lparr>dragResizeFace := None\<rparr>;
               h4 = h3\<lparr>faceDragNode_visible := False\<rparr>
           in (None, h4\<lparr>emitted := emitted h4 @ [BoundsChangedDone (bounds h4) False]\<rparr>)))"

subsection \<open>Create\<close>

definition beginCreate :: "handle \<Rightarrow> event \<Rightarrow> handle" where
  "beginCreate h ev =
     h\<lparr>dragStartPoint := Some (blockPosition ev), dragStartFace := Some FaceYIncreasing\<rparr>"

definition continueCreate :: "handle \<Rightarrow> event \<Rightarrow> outcome" where
  "continueCreate h ev =
     (case boxFromDragSelect h (ray ev) of
        Inl e \<Rightarrow> (Some e, h)
      | Inr newBox \<Rightarrow> (None, set_bounds (Some newBox) h))"

definition endCreate :: "handle \<Rightarrow> event \<Rightarrow> outcome" where
  "endCreate h ev =
     (case boxFromDragSelect h (ray ev) of
        Inl e \<Rightarrow> (Some e, h)
      | Inr newBox \<Rightarrow>
          (let h1 = h\<lparr>dragStartPoint := None\<rparr>;
               h2 = set_bounds (Some newBox) h1
           in (None, h2\<lparr>emitted := emitted h2 @ [BoundsChangedDone (Some newBox) True]\<rparr>)))"

subsection \<open>Move\<close>

definition beginMove :: "handle \<Rightarrow> event \<Rightarrow> handle" where
  "beginMove h ev = h"

definition continueMove :: "handle \<Rightarrow> event \<Rightarrow> handle" where
  "continueMove h ev = h"

definition endMove :: "handle \<Rightarrow> event \<Rightarrow> handle" where
  "endMove h ev = h"

subsection \<open>Update\<close>

definition updateMouseHover :: "face_under_cursor \<Rightarrow> handle \<Rightarrow> event \<Rightarrow> handle" where
  "updateMouseHover fuc h ev =
     (if bounds h = None then h
      else
        (let h1 = (case fuc (bounds h) (ray ev) of
                     (point, Some f) \<Rightarrow>
                       h\<lparr>faceDragNode_visible := True,
                          faceDragNode_face := Some f,
                          faceDragNode_selectionBox := bounds h\<rparr>
                   | (point, None) \<Rightarrow> h\<lparr>faceDragNode_visible := False\<rparr>)
         in if moveModifierDown h1 ev
            then h1\<lparr>faceDragNode_color := moveFaceColor\<rparr>
            else h1\<lparr>faceDragNode_color := resizeFaceColor\<rparr>))"

subsection \<open>Mouse events\<close>

definition mousePress :: "face_under_cursor \<Rightarrow> handle \<Rightarrow> event \<Rightarrow> handle" where
  "mousePress fuc h ev =
     (if resizable h \<and> \<not> moveModifierDown h ev
      then
        (let h1 = (if bounds h \<noteq> None then snd (beginResize fuc h ev) else h)
         in if bounds h1 = None then beginCreate h1 ev else h1)
      else beginMove h ev)"

text \<open>
  \<open>if self.dragStartPoint:\<close> tests a vector or \<open>None\<close>: it holds exactly when
  the attribute is set.
\<close>

definition mouseMove :: "face_under_cursor \<Rightarrow> handle \<Rightarrow> event \<Rightarrow> outcome" where
  "mouseMove fuc h ev =
     (case (if resizable h \<and> \<not> moveModifierDown h ev
            then
              (if dragStartPoint h \<noteq> None then continueCreate h ev
               else if bounds h \<noteq> None
                    then (if dragResizeFace h \<noteq> None then continueResize h ev else (None, h))
                    else (None, h))
            else (None, continueMove h ev)) of
        (Some e, h1) \<Rightarrow> (Some e, h1)
      | (None, h1) \<Rightarrow> (None, if hiliteFace h1 then updateMouseHover fuc h1 ev else h1))"

definition mouseRelease :: "handle \<Rightarrow> event \<Rightarrow> outcome" where
  "mouseRelease h ev =
     (if resizable h \<and> \<not> moveModifierDown h ev
      then
        (if dragStartPoint h \<noteq> None then endCreate h ev
         else if dragResizeFace h \<noteq> None then endResize h ev
         else (None, h))
      else (None, endMove h ev))"

subsection \<open>Concrete inputs\<close>

text \<open>
  A cube of side four, a cursor test that misses every box, one that hits the
  given face at the given point, and a mouse event with no modifier key held.
\<close>

definition cube4 :: box where
  "cube4 = BoundingBox (0, 0, 0) (4, 4, 4)"

definition fuc_miss :: face_under_cursor where
  "fuc_miss b r = ((0, 0, 0), None)"

definition fuc_hit :: "real vec3 \<Rightarrow> face \<Rightarrow> face_under_cursor" where
  "fuc_hit p f b r = (p, Some f)"

definition mouse_event :: "ray \<Rightarrow> int vec3 \<Rightarrow> event" where
  "mouse_event r p = \<lparr>ray = r, modifiers = 0, cameraVector = (0, 0, -1), blockPosition = p\<rparr>"

text \<open>
  All three components are at least zero; and a handle in the middle of a
  resize of \<open>cube4\<close>, with the given face, drag dimension and drag position.
\<close>

definition nonnegative :: "int vec3 \<Rightarrow> bool" where
  "nonnegative v = (case v of (a, b, c) \<Rightarrow> 0 \<le> a \<and> 0 \<le> b \<and> 0 \<le> c)"

definition resizing_handle :: "face \<Rightarrow> nat \<Rightarrow> real \<Rightarrow> handle" where
  "resizing_handle f d pos =
     BoxHandle_init\<lparr>boxNode_selectionBox := Some cube4, faceDragNode_selectionBox := Some cube4,
       dragResizeFace := Some f, dragResizeDimension := Some d,
       dragResizePosition := Some pos, oldBounds := Some cube4,
       emitted := [BoundsChanged (Some cube4)]\<rparr>"

text \<open>A handle holding \<open>cube4\<close>, with no gesture going on.\<close>

definition selected_handle :: handle where
  "selected_handle =
     BoxHandle_init\<lparr>boxNode_selectionBox := Some cube4, faceDragNode_selectionBox := Some cube4,
       emitted := [BoundsChanged (Some cube4)]\<rparr>"

text \<open>A fresh handle after a press on voxel \<open>p\<close>: a create gesture has begun.\<close>

definition creating_handle :: "int vec3 \<Rightarrow> handle" where
  "creating_handle p =
     BoxHandle_init\<lparr>dragStartPoint := Some p, dragStartFace := Some FaceYIncreasing\<rparr>"

section \<open>Properties\<close>

subsection \<open>The bounds model\<close>

text \<open>
  C3. Setting \<open>bounds\<close> to a value equal to the current one changes nothing: no
  signal is emitted and neither child node is written. Setting it to an
  unequal value writes the value to both child nodes and appends exactly one
  \<open>boundsChanged\<close> carrying it to the trace.
\<close>

theorem bounds_setter:
  "(b = bounds h \<longrightarrow> set_bounds b h = h) \<and>
   (b \<noteq> bounds h \<longrightarrow>
      set_bounds b h =
        h\<lparr>boxNode_selectionBox := b, faceDragNode_selectionBox := b,
          emitted := emitted h @ [BoundsChanged b]\<rparr>)"
  by (simp add: set_bounds_def)

theorem bounds_setter_witness:
  "Some cube4 = bounds (BoxHandle_init\<lparr>boxNode_selectionBox := Some cube4\<rparr>) \<and>
   set_bounds (Some cube4) (BoxHandle_init\<lparr>boxNode_selectionBox := Some cube4\<rparr>) =
     BoxHandle_init\<lparr>boxNode_selectionBox := Some cube4\<rparr> \<and>
   Some cube4 \<noteq> bounds BoxHandle_init \<and>
   emitted (set_bounds (Some cube4) BoxHandle_init) = [BoundsChanged (Some cube4)] \<and>
   boxNode_selectionBox (set_bounds (Some cube4) BoxHandle_init) = Some cube4 \<and>
   faceDragNode_selectionBox (set_bounds (Some cube4) BoxHandle_init) = Some cube4"
  using bounds_setter [of "Some cube4" "BoxHandle_init\<lparr>boxNode_selectionBox := Some cube4\<rparr>"]
    bounds_setter [of "Some cube4" BoxHandle_init]
  by (simp add: BoxHandle_init_def)

text \<open>
  C9. Setting \<open>resizable\<close> to false while \<open>bounds\<close> is unset raises
  \<open>AssertionError\<close> and leaves the handle, so also the flag, as it was. Setting
  it to false while \<open>bounds\<close> is set, and setting it to true in any state,
  return normally with the flag written.
\<close>

theorem resizable_setter:
  "(bounds h = None \<longrightarrow> set_resizable h False = (Some AssertionError, h)) \<and>
   (bounds h \<noteq> None \<longrightarrow> set_resizable h False = (None, h\<lparr>resizable := False\<rparr>)) \<and>
   set_resizable h True = (None, h\<lparr>resizable := True\<rparr>)"
  by (simp add: set_resizable_def)

theorem resizable_setter_witness:
  "bounds BoxHandle_init = None \<and>
   set_resizable BoxHandle_init False = (Some AssertionError, BoxHandle_init) \<and>
   resizable (snd (set_resizable BoxHandle_init False)) \<and>
   bounds (BoxHandle_init\<lparr>boxNode_selectionBox := Some cube4\<rparr>) \<noteq> None \<and>
   fst (set_resizable (BoxHandle_init\<lparr>boxNode_selectionBox := Some cube4\<rparr>) False) = None \<and>
   \<not> resizable (snd (set_resizable (BoxHandle_init\<lparr>boxNode_selectionBox := Some cube4\<rparr>) False))"
  using resizable_setter [of BoxHandle_init]
    resizable_setter [of "BoxHandle_init\<lparr>boxNode_selectionBox := Some cube4\<rparr>"]
  by (simp add: BoxHandle_init_def)

subsection \<open>Release outside a gesture\<close>

text \<open>
  C10. With \<open>resizable\<close> true, the move modifier not held and no gesture active
  (\<open>dragStartPoint\<close> and \<open>dragResizeFace\<close> both unset), \<open>mouseRelease\<close> returns
  normally and leaves every field of the handle as it was, the trace of
  emitted signals included.
\<close>

theorem mouseRelease_idle:
  assumes "resizable h" and "\<not> moveModifierDown h ev"
    and "dragStartPoint h = None" and "dragResizeFace h = None"
  shows "mouseRelease h ev = (None, h)"
  using assms by (simp add: mouseRelease_def)

theorem mouseRelease_idle_witness:
  "resizable BoxHandle_init \<and>
   \<not> moveModifierDown BoxHandle_init (mouse_event ((0, 0, 0), (0, 0, 1)) (0, 0, 0)) \<and>
   dragStartPoint BoxHandle_init = None \<and> dragResizeFace BoxHandle_init = None \<and>
   mouseRelease BoxHandle_init (mouse_event ((0, 0, 0), (0, 0, 1)) (0, 0, 0)) = (None, BoxHandle_init)"
proof -
  have a: "resizable BoxHandle_init" by (simp add: BoxHandle_init_def)
  have b: "\<not> moveModifierDown BoxHandle_init (mouse_event ((0, 0, 0), (0, 0, 1)) (0, 0, 0))"
    by (simp add: moveModifierDown_def mouse_event_def)
  have c: "dragStartPoint BoxHandle_init = None" by (simp add: BoxHandle_init_def)
  have d: "dragResizeFace BoxHandle_init = None" by (simp add: BoxHandle_init_def)
  from mouseRelease_idle [OF a b c d] a b c d show ?thesis by simp
qed

subsection \<open>The resize gesture\<close>

text \<open>
  C4. When \<open>beginResize\<close> hits a face, the dimension it stores is
  \<open>d0 = (face.dimension + 1) mod 3\<close>, replaced by \<open>d1 = (d0 + 1) mod 3\<close> exactly
  when the absolute camera component on \<open>d1\<close> is strictly greater than the one
  on \<open>d0\<close>; when the two are equal it stays \<open>d0\<close>.
\<close>

theorem beginResize_dimension:
  assumes "fuc (bounds h) (ray ev) = (point, Some f)"
    and "d0 = (dimension f + 1) mod 3" and "d1 = (d0 + 1) mod 3"
  shows "dragResizeDimension (snd (beginResize fuc h ev)) =
           Some (if \<bar>component (cameraVector ev) d1\<bar> > \<bar>component (cameraVector ev) d0\<bar>
                 then d1 else d0) \<and>
         (\<bar>component (cameraVector ev) d1\<bar> = \<bar>component (cameraVector ev) d0\<bar> \<longrightarrow>
            dragResizeDimension (snd (beginResize fuc h ev)) = Some d0)"
proof -
  obtain a b c where cam: "cameraVector ev = (a, b, c)"
    by (cases "cameraVector ev") auto
  have ab: "component (vabs (a, b, c)) i = \<bar>component (a, b, c) i\<bar>" for i
    by simp
  show ?thesis
    using assms by (simp add: beginResize_def Let_def cam ab del: component.simps vabs.simps)
qed

theorem beginResize_dimension_witness:
  "fuc_hit (4, 1, 1) 0 (bounds (BoxHandle_init\<lparr>boxNode_selectionBox := Some cube4\<rparr>))
       (ray (mouse_event ((9, 1, 1), (-1, 0, 0)) (0, 0, 0)\<lparr>cameraVector := (0, 3, -2)\<rparr>)) = ((4, 1, 1), Some 0) \<and>
   dragResizeDimension (snd (beginResize (fuc_hit (4, 1, 1) 0)
       (BoxHandle_init\<lparr>boxNode_selectionBox := Some cube4\<rparr>)
       (mouse_event ((9, 1, 1), (-1, 0, 0)) (0, 0, 0)\<lparr>cameraVector := (0, 3, -2)\<rparr>))) = Some 1 \<and>
   dragResizeDimension (snd (beginResize (fuc_hit (4, 1, 1) 0)
       (BoxHandle_init\<lparr>boxNode_selectionBox := Some cube4\<rparr>)
       (mouse_event ((9, 1, 1), (-1, 0, 0)) (0, 0, 0)\<lparr>cameraVector := (0, 2, -3)\<rparr>))) = Some 2 \<and>
   dragResizeDimension (snd (beginResize (fuc_hit (4, 1, 1) 0)
       (BoxHandle_init\<lparr>boxNode_selectionBox := Some cube4\<rparr>)
       (mouse_event ((9, 1, 1), (-1, 0, 0)) (0, 0, 0)\<lparr>cameraVector := (0, 2, -2)\<rparr>))) = Some 1"
proof -
  let ?h = "BoxHandle_init\<lparr>boxNode_selectionBox := Some cube4\<rparr>"
  let ?e = "mouse_event ((9, 1, 1), (-1, 0, 0)) (0, 0, 0)"
  have hit: "fuc_hit (4, 1, 1) 0 (bounds ?h) (ray (?e\<lparr>cameraVector := v\<rparr>)) = ((4, 1, 1), Some 0)" for v
    by (simp add: fuc_hit_def)
  have d0: "(1::nat) = (dimension 0 + 1) mod 3" by (simp add: dimension_def)
  have d1: "(2::nat) = (1 + 1) mod 3" by simp
  note w = beginResize_dimension [of "fuc_hit (4, 1, 1) 0" ?h _ "(4, 1, 1)" 0 1 2, OF hit d0 d1]
  show ?thesis
    using w [of "(0, 3, -2)"] w [of "(0, 2, -3)"] w [of "(0, 2, -2)"] hit [of "(0, 3, -2)"]
    by simp
qed

text \<open>
  C5. \<open>dragResizePoint\<close> never raises \<open>ZeroDivisionError\<close>, whatever the handle
  and the ray. With the drag dimension and position set, it returns
  \<open>normal * scale + nearPoint\<close>, where the divisor of \<open>scale\<close> is 0.0001 when
  the ray's direction component along the drag dimension is zero.
\<close>

theorem dragResizePoint_no_division_error:
  "dragResizePoint h r \<noteq> Inl ZeroDivisionError \<and>
   (dragResizeDimension h = Some d \<and> d < 3 \<and> dragResizePosition h = Some pos \<longrightarrow>
      dragResizePoint h (nearPoint, normal) =
        Inr (vadd (vscale normal
                     ((pos - component nearPoint d) /
                      (if component normal d = 0 then 1 / 10000 else component normal d)))
                  nearPoint))"
  by (cases r)
    (simp add: dragResizePoint_def getitem_def pydiv_def py_or_def Let_def
      split: option.splits sum.splits)

theorem dragResizePoint_no_division_error_witness:
  "dragResizeDimension (BoxHandle_init\<lparr>dragResizeDimension := Some 2, dragResizePosition := Some 4\<rparr>) = Some 2 \<and>
   (2::nat) < 3 \<and>
   dragResizePosition (BoxHandle_init\<lparr>dragResizeDimension := Some 2, dragResizePosition := Some 4\<rparr>) = Some 4 \<and>
   dragResizePoint (BoxHandle_init\<lparr>dragResizeDimension := Some 2, dragResizePosition := Some 4\<rparr>)
       ((1, 2, 3), (1, 1, 0)) = Inr (10001, 10002, 3)"
  using dragResizePoint_no_division_error
    [of "BoxHandle_init\<lparr>dragResizeDimension := Some 2, dragResizePosition := Some 4\<rparr>"
        "((1, 2, 3), (1, 1, 0))" 2 4 "(1, 2, 3)" "(1, 1, 0)"]
  by simp

subsection \<open>Dragging a face\<close>

text \<open>With the drag dimension and position set, \<open>dragResizePoint\<close> returns a point.\<close>

lemma dragResizePoint_value:
  assumes "dragResizeDimension h = Some d" and "d < 3" and "dragResizePosition h = Some pos"
  shows "dragResizePoint h (nearPoint, normal) =
           Inr (vadd (vscale normal
                        ((pos - component nearPoint d) / py_or (component normal d) (1 / 10000)))
                     nearPoint)"
proof -
  have "py_or (component normal d) (1 / 10000) \<noteq> 0"
    by (simp add: py_or_def)
  then show ?thesis
    using assms by (simp add: dragResizePoint_def getitem_def pydiv_def Let_def)
qed

lemma dragResizePoint_returns:
  assumes "dragResizeDimension h = Some d" and "d < 3" and "dragResizePosition h = Some pos"
  shows "\<exists>point. dragResizePoint h r = Inr point"
  using dragResizePoint_value [OF assms] by (cases r) blast

lemma dragResizeSides_returns:
  assumes "dragResizeDimension h = Some d" and "d < 3" and "dragResizePosition h = Some pos"
    and "dragResizeFace h = Some f" and "f < 6"
  shows "\<exists>sides. dragResizeSides h (Some bx) r = Inr sides"
proof -
  obtain point where p: "dragResizePoint h r = Inr point"
    using dragResizePoint_returns [OF assms(1-3)] by blast
  have "drop_bit 1 f < (3::nat)"
    using assms(5) by (simp add: drop_bit_eq_div)
  then show ?thesis
    using assms(4) p by (simp add: dragResizeSides_def Let_def)
qed

text \<open>
  The union of two boxes has non-negative sizes as soon as one of them has;
  the two flat sides keep the sizes of the box being resized, with zero on the
  dragged axis.
\<close>

lemma union_box_nonnegative:
  assumes "nonnegative (bsize a)"
  shows "nonnegative (bsize (union_box a b))"
proof -
  obtain a1 a2 a3 where oa: "origin a = (a1, a2, a3)" by (cases "origin a") auto
  obtain s1 s2 s3 where sa: "bsize a = (s1, s2, s3)" by (cases "bsize a") auto
  obtain b1 b2 b3 where ob: "origin b = (b1, b2, b3)" by (cases "origin b") auto
  obtain t1 t2 t3 where sb: "bsize b = (t1, t2, t3)" by (cases "bsize b") auto
  show ?thesis
    using assms
    by (simp add: union_box_def BoundingBox_def maximum_def nonnegative_def oa sa ob sb Let_def)
      linarith
qed

lemma dragResizeSides_size:
  assumes "dragResizeSides h (Some bx) r = Inr (thisSide, otherSide)"
    and "nonnegative (bsize bx)"
  shows "nonnegative (bsize thisSide)"
proof -
  obtain s1 s2 s3 where sa: "bsize bx = (s1, s2, s3)" by (cases "bsize bx") auto
  show ?thesis
    using assms
    by (auto simp add: dragResizeSides_def BoundingBox_def nonnegative_def sa Let_def
        split: sum.splits option.splits if_splits)
qed

text \<open>Two drags of the lower Y face of \<open>cube4\<close>, one inside the box and one past its far side.\<close>

lemma resize_example:
  "boxFromDragResize (resizing_handle 3 2 0) (Some cube4) ((0, 5 / 2, 5), (0, 0, -1)) =
     Inr (BoundingBox (0, 3, 0) (4, 1, 4))"
  by (simp add: boxFromDragResize_def dragResizeSides_def dragResizePoint_def getitem_def
      pydiv_def py_or_def resizing_handle_def BoxHandle_init_def cube4_def union_box_def
      maximum_def BoundingBox_def drop_bit_eq_div Let_def)

lemma resize_example_down:
  "boxFromDragResize (resizing_handle 3 2 0) (Some cube4) ((0, 13 / 2, 5), (0, 0, -1)) =
     Inr (BoundingBox (0, 4, 0) (4, 3, 4))"
  by (simp add: boxFromDragResize_def dragResizeSides_def dragResizePoint_def getitem_def
      pydiv_def py_or_def resizing_handle_def BoxHandle_init_def cube4_def union_box_def
      maximum_def BoundingBox_def drop_bit_eq_div Let_def)

text \<open>
  C6. For a box with non-negative sizes and any ray, every box that
  \<open>boxFromDragResize\<close> returns has non-negative sizes, on whichever side of the
  stationary face the dragged coordinate lands; and it does return a box when
  the drag dimension (below 3), the drag position and the dragged face (below
  6) are set.
\<close>

theorem boxFromDragResize_nonnegative:
  assumes "nonnegative (bsize bx)"
  shows "(\<forall>res. boxFromDragResize h (Some bx) r = Inr res \<longrightarrow> nonnegative (bsize res)) \<and>
         (dragResizeDimension h = Some d \<and> d < 3 \<and> dragResizePosition h = Some pos \<and>
          dragResizeFace h = Some f \<and> f < 6 \<longrightarrow>
            (\<exists>res. boxFromDragResize h (Some bx) r = Inr res))"
proof (intro conjI allI impI)
  fix res
  assume "boxFromDragResize h (Some bx) r = Inr res"
  then obtain thisSide otherSide
    where s: "dragResizeSides h (Some bx) r = Inr (thisSide, otherSide)"
      and u: "res = union_box thisSide otherSide"
    by (auto simp add: boxFromDragResize_def split: sum.splits)
  show "nonnegative (bsize res)"
    unfolding u
    by (rule union_box_nonnegative) (rule dragResizeSides_size [OF s assms])
next
  assume "dragResizeDimension h = Some d \<and> d < 3 \<and> dragResizePosition h = Some pos \<and>
          dragResizeFace h = Some f \<and> f < 6"
  then obtain sides where "dragResizeSides h (Some bx) r = Inr sides"
    using dragResizeSides_returns [of h d pos f bx r] by blast
  then show "\<exists>res. boxFromDragResize h (Some bx) r = Inr res"
    by (cases sides) (simp add: boxFromDragResize_def)
qed

theorem boxFromDragResize_nonnegative_witness:
  "nonnegative (bsize cube4) \<and>
   dragResizeDimension (resizing_handle 3 2 0) = Some 2 \<and> (2::nat) < 3 \<and>
   dragResizePosition (resizing_handle 3 2 0) = Some 0 \<and>
   dragResizeFace (resizing_handle 3 2 0) = Some 3 \<and> (3::nat) < 6 \<and>
   boxFromDragResize (resizing_handle 3 2 0) (Some cube4) ((0, 13 / 2, 5), (0, 0, -1)) =
     Inr (BoundingBox (0, 4, 0) (4, 3, 4)) \<and>
   nonnegative (bsize (BoundingBox (0, 4, 0) (4, 3, 4)))"
proof -
  have n: "nonnegative (bsize cube4)"
    by (simp add: nonnegative_def cube4_def BoundingBox_def)
  have e: "boxFromDragResize (resizing_handle 3 2 0) (Some cube4) ((0, 13 / 2, 5), (0, 0, -1)) =
             Inr (BoundingBox (0, 4, 0) (4, 3, 4))"
    by (rule resize_example_down)
  have st: "dragResizeDimension (resizing_handle 3 2 0) = Some 2 \<and> (2::nat) < 3 \<and>
            dragResizePosition (resizing_handle 3 2 0) = Some 0 \<and>
            dragResizeFace (resizing_handle 3 2 0) = Some 3 \<and> (3::nat) < 6"
    by (simp add: resizing_handle_def)
  from boxFromDragResize_nonnegative
    [OF n, of "resizing_handle 3 2 0" "((0, 13 / 2, 5), (0, 0, -1))" 2 0 3] e
  have "nonnegative (bsize (BoundingBox (0, 4, 0) (4, 3, 4)))" by simp
  with n e st show ?thesis by simp
qed







subsection \<open>A press that misses the box\<close>

lemma moveModifierDown_mouse_event [simp]:
  "\<not> moveModifierDown h (mouse_event r p)"
  by (simp add: moveModifierDown_def mouse_event_def)

text \<open>
  C1, as the code has it. A press with \<open>resizable\<close> true, the move modifier
  not held and \<open>bounds\<close> set, whose ray hits no face of the box, clears
  \<open>bounds\<close> (both child nodes are written and \<open>boundsChanged\<close> is emitted with
  no box) and begins a create gesture in that same call: \<open>dragStartPoint\<close> is
  the event's block position and \<open>dragStartFace\<close> the Y-increasing face.
\<close>

theorem mousePress_miss:
  assumes "resizable h" and "\<not> moveModifierDown h ev"
    and "bounds h = Some bx" and "snd (fuc (Some bx) (ray ev)) = None"
  shows "mousePress fuc h ev =
           h\<lparr>boxNode_selectionBox := None, faceDragNode_selectionBox := None,
             emitted := emitted h @ [BoundsChanged None],
             dragStartPoint := Some (blockPosition ev),
             dragStartFace := Some FaceYIncreasing\<rparr>"
proof -
  obtain point where "fuc (Some bx) (ray ev) = (point, None)"
    using assms(4) by (cases "fuc (Some bx) (ray ev)") auto
  then show ?thesis
    using assms(1-3)
    by (simp add: mousePress_def beginResize_def set_bounds_def beginCreate_def)
qed

theorem mousePress_miss_witness:
  "resizable selected_handle \<and>
   \<not> moveModifierDown selected_handle (mouse_event ((9, 9, 9), (0, 0, 1)) (7, 8, 9)) \<and>
   bounds selected_handle = Some cube4 \<and>
   snd (fuc_miss (Some cube4) (ray (mouse_event ((9, 9, 9), (0, 0, 1)) (7, 8, 9)))) = None \<and>
   mousePress fuc_miss selected_handle (mouse_event ((9, 9, 9), (0, 0, 1)) (7, 8, 9)) =
     BoxHandle_init\<lparr>emitted := [BoundsChanged (Some cube4), BoundsChanged None],
       dragStartPoint := Some (7, 8, 9), dragStartFace := Some 2\<rparr>"
proof -
  let ?e = "mouse_event ((9, 9, 9), (0, 0, 1)) (7, 8, 9)"
  have a: "resizable selected_handle"
    by (simp add: selected_handle_def BoxHandle_init_def)
  have b: "\<not> moveModifierDown selected_handle ?e" by simp
  have c: "bounds selected_handle = Some cube4" by (simp add: selected_handle_def)
  have d: "snd (fuc_miss (Some cube4) (ray ?e)) = None" by (simp add: fuc_miss_def)
  from mousePress_miss [of selected_handle ?e cube4 fuc_miss, OF a b c d] a b c d show ?thesis
    by (simp add: selected_handle_def BoxHandle_init_def mouse_event_def FaceYIncreasing_def)
qed

text \<open>
  The claim that such a press only clears \<open>bounds\<close> and begins no create
  gesture fails on a handle holding \<open>cube4\<close>: after the press
  \<open>dragStartPoint\<close> and \<open>dragStartFace\<close> are set.
\<close>

theorem mousePress_miss_counterexample:
  "resizable selected_handle \<and>
   \<not> moveModifierDown selected_handle (mouse_event ((9, 9, 9), (0, 0, 1)) (7, 8, 9)) \<and>
   bounds selected_handle \<noteq> None \<and>
   snd (fuc_miss (bounds selected_handle) (ray (mouse_event ((9, 9, 9), (0, 0, 1)) (7, 8, 9)))) = None \<and>
   dragStartPoint selected_handle = None \<and>
   bounds (mousePress fuc_miss selected_handle (mouse_event ((9, 9, 9), (0, 0, 1)) (7, 8, 9))) = None \<and>
   dragStartPoint (mousePress fuc_miss selected_handle (mouse_event ((9, 9, 9), (0, 0, 1)) (7, 8, 9)))
     = Some (7, 8, 9) \<and>
   dragStartFace (mousePress fuc_miss selected_handle (mouse_event ((9, 9, 9), (0, 0, 1)) (7, 8, 9)))
     = Some FaceYIncreasing"
  by (simp add: mousePress_def beginResize_def set_bounds_def beginCreate_def fuc_miss_def
      selected_handle_def BoxHandle_init_def mouse_event_def moveModifierDown_def)

subsection \<open>The release that ends a gesture\<close>

text \<open>
  In a gesture the helper that rebuilds the box returns one, so the release
  returns normally; \<open>endResize\<close> and \<open>endCreate\<close> then write the fields below.
\<close>

lemma boxFromDragResize_returns:
  assumes "dragResizeDimension h = Some d" and "d < 3" and "dragResizePosition h = Some pos"
    and "dragResizeFace h = Some f" and "f < 6"
  shows "\<exists>res. boxFromDragResize h (Some bx) r = Inr res"
proof -
  obtain sides where "dragResizeSides h (Some bx) r = Inr sides"
    using dragResizeSides_returns [OF assms] by blast
  then show ?thesis
    by (cases sides) (simp add: boxFromDragResize_def)
qed

lemma boxFromDragSelect_returns:
  assumes "dragStartPoint h = Some p" and "dragStartFace h = Some g" and "g < 6"
  shows "\<exists>res. boxFromDragSelect h r = Inr res"
proof -
  have "drop_bit 1 g < (3::nat)"
    using assms(3) by (simp add: drop_bit_eq_div)
  then show ?thesis
    using assms(1,2) by (simp add: boxFromDragSelect_def Let_def)
qed

lemma endResize_fields:
  assumes "boxFromDragResize h (oldBounds h) (ray ev) = Inr res"
  shows "fst (endResize h ev) = None"
    and "dragResizeFace (snd (endResize h ev)) = None"
    and "oldBounds (snd (endResize h ev)) = None"
    and "dragStartPoint (snd (endResize h ev)) = dragStartPoint h"
    and "dragResizeDimension (snd (endResize h ev)) = dragResizeDimension h"
    and "dragResizePosition (snd (endResize h ev)) = dragResizePosition h"
  using assms by (simp_all add: endResize_def set_bounds_def Let_def)

lemma endCreate_fields:
  assumes "boxFromDragSelect h (ray ev) = Inr res"
  shows "fst (endCreate h ev) = None"
    and "dragStartPoint (snd (endCreate h ev)) = None"
    and "dragStartFace (snd (endCreate h ev)) = dragStartFace h"
  using assms by (simp_all add: endCreate_def set_bounds_def Let_def)

text \<open>
  C2, as the code has it. The release that ends a resize gesture returns
  normally and leaves \<open>dragResizeFace\<close> and \<open>oldBounds\<close> unset (and
  \<open>dragStartPoint\<close> still unset), while \<open>dragResizeDimension\<close> and
  \<open>dragResizePosition\<close> keep the values captured at the press. The release
  that ends a create gesture returns normally and leaves \<open>dragStartPoint\<close>
  unset, while \<open>dragStartFace\<close> keeps its value.
\<close>

theorem mouseRelease_clears:
  "(resizable h \<and> \<not> moveModifierDown h ev \<and> dragStartPoint h = None \<and>
    dragResizeFace h = Some f \<and> f < 6 \<and> dragResizeDimension h = Some d \<and> d < 3 \<and>
    dragResizePosition h = Some pos \<and> oldBounds h = Some bx \<longrightarrow>
      fst (mouseRelease h ev) = None \<and>
      dragResizeFace (snd (mouseRelease h ev)) = None \<and>
      oldBounds (snd (mouseRelease h ev)) = None \<and>
      dragStartPoint (snd (mouseRelease h ev)) = None \<and>
      dragResizeDimension (snd (mouseRelease h ev)) = Some d \<and>
      dragResizePosition (snd (mouseRelease h ev)) = Some pos) \<and>
   (resizable h \<and> \<not> moveModifierDown h ev \<and> dragStartPoint h = Some p \<and>
    dragStartFace h = Some g \<and> g < 6 \<longrightarrow>
      fst (mouseRelease h ev) = None \<and>
      dragStartPoint (snd (mouseRelease h ev)) = None \<and>
      dragStartFace (snd (mouseRelease h ev)) = Some g)"
proof (intro conjI impI)
  assume a: "resizable h \<and> \<not> moveModifierDown h ev \<and> dragStartPoint h = None \<and>
    dragResizeFace h = Some f \<and> f < 6 \<and> dragResizeDimension h = Some d \<and> d < 3 \<and>
    dragResizePosition h = Some pos \<and> oldBounds h = Some bx"
  then obtain res where r: "boxFromDragResize h (oldBounds h) (ray ev) = Inr res"
    using boxFromDragResize_returns [of h d pos f bx "ray ev"] by auto
  have m: "mouseRelease h ev = endResize h ev"
    using a by (simp add: mouseRelease_def)
  show "fst (mouseRelease h ev) = None"
    and "dragResizeFace (snd (mouseRelease h ev)) = None"
    and "oldBounds (snd (mouseRelease h ev)) = None"
    and "dragStartPoint (snd (mouseRelease h ev)) = None"
    and "dragResizeDimension (snd (mouseRelease h ev)) = Some d"
    and "dragResizePosition (snd (mouseRelease h ev)) = Some pos"
    using a endResize_fields [OF r] by (simp_all add: m)
next
  assume a: "resizable h \<and> \<not> moveModifierDown h ev \<and> dragStartPoint h = Some p \<and>
    dragStartFace h = Some g \<and> g < 6"
  then obtain res where r: "boxFromDragSelect h (ray ev) = Inr res"
    using boxFromDragSelect_returns [of h p g "ray ev"] by auto
  have m: "mouseRelease h ev = endCreate h ev"
    using a by (simp add: mouseRelease_def)
  show "fst (mouseRelease h ev) = None"
    and "dragStartPoint (snd (mouseRelease h ev)) = None"
    and "dragStartFace (snd (mouseRelease h ev)) = Some g"
    using a endCreate_fields [OF r] by (simp_all add: m)
qed

theorem mouseRelease_clears_witness:
  "resizable (resizing_handle 3 2 2) \<and>
   \<not> moveModifierDown (resizing_handle 3 2 2) (mouse_event ((1, - 5 / 2, 5), (0, 0, -1)) (1, 0, 2)) \<and>
   dragStartPoint (resizing_handle 3 2 2) = None \<and>
   dragResizeFace (resizing_handle 3 2 2) = Some 3 \<and> (3::nat) < 6 \<and>
   dragResizeDimension (resizing_handle 3 2 2) = Some 2 \<and> (2::nat) < 3 \<and>
   dragResizePosition (resizing_handle 3 2 2) = Some 2 \<and>
   oldBounds (resizing_handle 3 2 2) = Some cube4 \<and>
   dragResizeFace
     (snd (mouseRelease (resizing_handle 3 2 2) (mouse_event ((1, - 5 / 2, 5), (0, 0, -1)) (1, 0, 2))))
     = None \<and>
   oldBounds
     (snd (mouseRelease (resizing_handle 3 2 2) (mouse_event ((1, - 5 / 2, 5), (0, 0, -1)) (1, 0, 2))))
     = None \<and>
   resizable (creating_handle (0, 0, 0)) \<and>
   \<not> moveModifierDown (creating_handle (0, 0, 0)) (mouse_event ((2, 5, 3), (0, -1, 0)) (0, 0, 0)) \<and>
   dragStartPoint (creating_handle (0, 0, 0)) = Some (0, 0, 0) \<and>
   dragStartFace (creating_handle (0, 0, 0)) = Some 2 \<and> (2::nat) < 6 \<and>
   dragStartPoint
     (snd (mouseRelease (creating_handle (0, 0, 0)) (mouse_event ((2, 5, 3), (0, -1, 0)) (0, 0, 0))))
     = None"
proof -
  have a: "resizable (resizing_handle 3 2 2) \<and>
     \<not> moveModifierDown (resizing_handle 3 2 2) (mouse_event ((1, - 5 / 2, 5), (0, 0, -1)) (1, 0, 2)) \<and>
     dragStartPoint (resizing_handle 3 2 2) = None \<and>
     dragResizeFace (resizing_handle 3 2 2) = Some 3 \<and> (3::nat) < 6 \<and>
     dragResizeDimension (resizing_handle 3 2 2) = Some 2 \<and> (2::nat) < 3 \<and>
     dragResizePosition (resizing_handle 3 2 2) = Some 2 \<and>
     oldBounds (resizing_handle 3 2 2) = Some cube4"
    by (simp add: resizing_handle_def BoxHandle_init_def)
  have b: "resizable (creating_handle (0, 0, 0)) \<and>
     \<not> moveModifierDown (creating_handle (0, 0, 0)) (mouse_event ((2, 5, 3), (0, -1, 0)) (0, 0, 0)) \<and>
     dragStartPoint (creating_handle (0, 0, 0)) = Some (0, 0, 0) \<and>
     dragStartFace (creating_handle (0, 0, 0)) = Some 2 \<and> (2::nat) < 6"
    by (simp add: creating_handle_def BoxHandle_init_def FaceYIncreasing_def)
  show ?thesis
    using a b
      mouseRelease_clears [of "resizing_handle 3 2 2"
        "mouse_event ((1, - 5 / 2, 5), (0, 0, -1)) (1, 0, 2)" 3 2 2 cube4 "(0, 0, 0)" 2]
      mouseRelease_clears [of "creating_handle (0, 0, 0)"
        "mouse_event ((2, 5, 3), (0, -1, 0)) (0, 0, 0)" 3 2 2 cube4 "(0, 0, 0)" 2]
    by simp
qed

text \<open>
  A press that hits face 3 of \<open>cube4\<close> begins a resize; a press on a fresh
  handle begins a create.
\<close>

lemma press_hit_example:
  "mousePress (fuc_hit (1, 0, 2) 3) selected_handle (mouse_event ((1, 0, 5), (0, 0, -1)) (1, 0, 2)) =
     resizing_handle 3 2 2"
  by (simp add: mousePress_def beginResize_def fuc_hit_def selected_handle_def
      resizing_handle_def BoxHandle_init_def mouse_event_def moveModifierDown_def
      dimension_def drop_bit_eq_div Let_def)

lemma press_create_example:
  "mousePress fuc_miss BoxHandle_init (mouse_event r p) = creating_handle p"
  by (simp add: mousePress_def beginCreate_def creating_handle_def BoxHandle_init_def
      mouse_event_def moveModifierDown_def)

text \<open>
  The claim that all four resize fields and both create fields are unset after
  the release fails: after a press on face 3 of \<open>cube4\<close> and the release,
  \<open>dragResizeDimension\<close> and \<open>dragResizePosition\<close> are still set; after a
  press on a fresh handle and the release, \<open>dragStartFace\<close> is still set.
\<close>

theorem mouseRelease_clears_counterexample:
  "mousePress (fuc_hit (1, 0, 2) 3) selected_handle (mouse_event ((1, 0, 5), (0, 0, -1)) (1, 0, 2)) =
     resizing_handle 3 2 2 \<and>
   dragResizeFace (resizing_handle 3 2 2) = Some 3 \<and>
   fst (mouseRelease (resizing_handle 3 2 2) (mouse_event ((1, - 5 / 2, 5), (0, 0, -1)) (1, 0, 2))) = None \<and>
   dragResizeDimension
     (snd (mouseRelease (resizing_handle 3 2 2) (mouse_event ((1, - 5 / 2, 5), (0, 0, -1)) (1, 0, 2))))
     = Some 2 \<and>
   dragResizePosition
     (snd (mouseRelease (resizing_handle 3 2 2) (mouse_event ((1, - 5 / 2, 5), (0, 0, -1)) (1, 0, 2))))
     = Some 2 \<and>
   mousePress fuc_miss BoxHandle_init (mouse_event ((2, 5, 3), (0, -1, 0)) (0, 0, 0)) =
     creating_handle (0, 0, 0) \<and>
   fst (mouseRelease (creating_handle (0, 0, 0)) (mouse_event ((2, 5, 3), (0, -1, 0)) (0, 0, 0))) = None \<and>
   dragStartFace
     (snd (mouseRelease (creating_handle (0, 0, 0)) (mouse_event ((2, 5, 3), (0, -1, 0)) (0, 0, 0))))
     = Some FaceYIncreasing"
proof -
  have r: "boxFromDragResize (resizing_handle 3 2 2) (Some cube4) ((1, - 5 / 2, 5), (0, 0, -1)) =
             Inr (BoundingBox (0, -2, 0) (4, 6, 4))"
    by (simp add: boxFromDragResize_def dragResizeSides_def dragResizePoint_def getitem_def
      pydiv_def py_or_def resizing_handle_def BoxHandle_init_def cube4_def union_box_def
      maximum_def BoundingBox_def drop_bit_eq_div Let_def)
  have c: "boxFromDragSelect (creating_handle (0, 0, 0)) ((2, 5, 3), (0, -1, 0)) =
             Inr (BoundingBox (0, 1, 0) (3, 0, 4))"
    by (simp add: boxFromDragSelect_def intersectPlane_def py_or_def creating_handle_def
      FaceYIncreasing_def union_box_def maximum_def BoundingBox_def drop_bit_eq_div Let_def)
  have 1: "fst (mouseRelease (resizing_handle 3 2 2) (mouse_event ((1, - 5 / 2, 5), (0, 0, -1)) (1, 0, 2))) = None"
    "dragResizeDimension
     (snd (mouseRelease (resizing_handle 3 2 2) (mouse_event ((1, - 5 / 2, 5), (0, 0, -1)) (1, 0, 2))))
     = Some 2"
    "dragResizePosition
     (snd (mouseRelease (resizing_handle 3 2 2) (mouse_event ((1, - 5 / 2, 5), (0, 0, -1)) (1, 0, 2))))
     = Some 2"
    using r
    by (simp_all add: mouseRelease_def endResize_def set_bounds_def Let_def
        resizing_handle_def BoxHandle_init_def mouse_event_def moveModifierDown_def)
  have 2: "fst (mouseRelease (creating_handle (0, 0, 0)) (mouse_event ((2, 5, 3), (0, -1, 0)) (0, 0, 0))) = None"
    "dragStartFace
     (snd (mouseRelease (creating_handle (0, 0, 0)) (mouse_event ((2, 5, 3), (0, -1, 0)) (0, 0, 0))))
     = Some FaceYIncreasing"
    using c
    by (simp_all add: mouseRelease_def endCreate_def set_bounds_def Let_def
        creating_handle_def BoxHandle_init_def mouse_event_def moveModifierDown_def)
  have 3: "dragResizeFace (resizing_handle 3 2 2) = Some 3"
    by (simp add: resizing_handle_def)
  show ?thesis
    using press_hit_example press_create_example [of "((2, 5, 3), (0, -1, 0))" "(0, 0, 0)"] 1 2 3
    by simp
qed

subsection \<open>Creating a box\<close>

text \<open>
  From voxel \<open>(0,0,0)\<close> on the Y-increasing face the start box lies in the
  plane Y = 1; with the ray crossing that plane at \<open>(2,1,3)\<close> the box dragged
  out is flat: origin \<open>(0,1,0)\<close>, size \<open>(3,0,4)\<close>. The hover update changes
  only the face node's visibility, face, box and colour.
\<close>

lemma boxFromDragSelect_scenario:
  assumes "dragStartPoint h = Some (0, 0, 0)" and "dragStartFace h = Some FaceYIncreasing"
    and "intersectPlane r 1 1 = (2, 1, 3)"
  shows "boxFromDragSelect h r = Inr (BoundingBox (0, 1, 0) (3, 0, 4))"
  using assms
  by (simp add: boxFromDragSelect_def FaceYIncreasing_def union_box_def maximum_def
      BoundingBox_def drop_bit_eq_div Let_def)

lemma updateMouseHover_frame:
  "dragStartPoint (updateMouseHover fuc h ev) = dragStartPoint h"
  "dragStartFace (updateMouseHover fuc h ev) = dragStartFace h"
  "dragResizeFace (updateMouseHover fuc h ev) = dragResizeFace h"
  "bounds (updateMouseHover fuc h ev) = bounds h"
  "emitted (updateMouseHover fuc h ev) = emitted h"
  "resizable (updateMouseHover fuc h ev) = resizable h"
  "modifier (updateMouseHover fuc h ev) = modifier h"
  by (simp_all add: updateMouseHover_def Let_def split: prod.splits option.splits)

text \<open>The ray from \<open>(2,5,3)\<close> straight down crosses the plane Y = 1 at \<open>(2,1,3)\<close>.\<close>

lemma intersect_example: "intersectPlane ((2, 5, 3), (0, -1, 0)) 1 1 = (2, 1, 3)"
  by (simp add: intersectPlane_def py_or_def)

text \<open>
  C8, as the code has it. With \<open>bounds\<close> unset and \<open>resizable\<close> true, a press
  at voxel \<open>(0,0,0)\<close>, a move whose ray crosses the plane Y = 1 at
  \<open>(2,1,3)\<close> and a release with the same ray, none with the move modifier
  held, all return normally and end with \<open>bounds\<close> equal to the box of origin
  \<open>(0,1,0)\<close> and size \<open>(3,0,4)\<close>; the trace gains one \<open>boundsChanged\<close> with
  that box and then exactly one \<open>boundsChangedDone\<close> with that box and
  \<open>isNewSelection = True\<close>.
\<close>

theorem create_scenario:
  assumes "bounds h = None" and "resizable h"
    and "\<not> moveModifierDown h ev1" and "\<not> moveModifierDown h ev2"
    and "\<not> moveModifierDown h ev3"
    and "blockPosition ev1 = (0, 0, 0)"
    and "intersectPlane (ray ev2) 1 1 = (2, 1, 3)" and "ray ev3 = ray ev2"
  shows "\<exists>h2 h3.
           mouseMove fuc (mousePress fuc h ev1) ev2 = (None, h2) \<and>
           mouseRelease h2 ev3 = (None, h3) \<and>
           bounds h3 = Some (BoundingBox (0, 1, 0) (3, 0, 4)) \<and>
           emitted h3 =
             emitted h @ [BoundsChanged (Some (BoundingBox (0, 1, 0) (3, 0, 4))),
                          BoundsChangedDone (Some (BoundingBox (0, 1, 0) (3, 0, 4))) True]"
proof -
  let ?B = "BoundingBox (0, 1, 0) (3, 0, 4)"
  let ?h1 = "mousePress fuc h ev1"
  have h1: "?h1 = h\<lparr>dragStartPoint := Some (0, 0, 0), dragStartFace := Some FaceYIncreasing\<rparr>"
    using assms(1,2,3,6) by (simp add: mousePress_def beginCreate_def)
  have b1: "boxFromDragSelect ?h1 (ray ev2) = Inr ?B"
    by (rule boxFromDragSelect_scenario [OF _ _ assms(7)]) (simp_all add: h1)
  let ?hc = "set_bounds (Some ?B) ?h1"
  let ?h2 = "if hiliteFace ?hc then updateMouseHover fuc ?hc ev2 else ?hc"
  have mm: "\<not> moveModifierDown ?h1 ev2"
    using assms(4) by (simp add: h1 moveModifierDown_def)
  have move: "mouseMove fuc ?h1 ev2 = (None, ?h2)"
    using assms(2) mm b1 by (simp add: mouseMove_def continueCreate_def h1)
  have hc: "dragStartPoint ?hc = Some (0, 0, 0)" "dragStartFace ?hc = Some FaceYIncreasing"
    "bounds ?hc = Some ?B" "emitted ?hc = emitted h @ [BoundsChanged (Some ?B)]"
    "resizable ?hc" "modifier ?hc = modifier h"
    using assms(1,2) by (simp_all add: h1 set_bounds_def)
  have h2: "dragStartPoint ?h2 = Some (0, 0, 0)" "dragStartFace ?h2 = Some FaceYIncreasing"
    "bounds ?h2 = Some ?B" "emitted ?h2 = emitted h @ [BoundsChanged (Some ?B)]"
    "resizable ?h2" "modifier ?h2 = modifier h"
    using hc by (simp_all add: updateMouseHover_frame)
  have i3: "intersectPlane (ray ev3) 1 1 = (2, 1, 3)"
    unfolding assms(8) by (rule assms(7))
  have b2: "boxFromDragSelect ?h2 (ray ev3) = Inr ?B"
    by (rule boxFromDragSelect_scenario [OF h2(1) h2(2) i3])
  have mr: "\<not> moveModifierDown ?h2 ev3"
    using assms(5) h2(6) by (simp add: moveModifierDown_def)
  let ?h3 = "snd (mouseRelease ?h2 ev3)"
  have rel: "mouseRelease ?h2 ev3 = endCreate ?h2 ev3"
    using h2(1,5) mr by (simp add: mouseRelease_def)
  have e: "fst (endCreate ?h2 ev3) = None"
    "bounds (snd (endCreate ?h2 ev3)) = Some ?B"
    "emitted (snd (endCreate ?h2 ev3)) =
       emitted h @ [BoundsChanged (Some ?B), BoundsChangedDone (Some ?B) True]"
    using b2 h2(3,4) by (simp_all add: endCreate_def set_bounds_def Let_def)
  have "mouseRelease ?h2 ev3 = (None, ?h3)"
    using e(1) rel by (metis prod.collapse)
  with move e(2,3) rel show ?thesis by auto
qed

theorem create_scenario_witness:
  "bounds BoxHandle_init = None \<and> resizable BoxHandle_init \<and>
   \<not> moveModifierDown BoxHandle_init (mouse_event ((2, 5, 3), (0, -1, 0)) (0, 0, 0)) \<and>
   blockPosition (mouse_event ((2, 5, 3), (0, -1, 0)) (0, 0, 0)) = (0, 0, 0) \<and>
   intersectPlane (ray (mouse_event ((2, 5, 3), (0, -1, 0)) (0, 0, 0))) 1 1 = (2, 1, 3) \<and>
   (\<exists>h2 h3.
      mouseMove fuc_miss
        (mousePress fuc_miss BoxHandle_init (mouse_event ((2, 5, 3), (0, -1, 0)) (0, 0, 0)))
        (mouse_event ((2, 5, 3), (0, -1, 0)) (0, 0, 0)) = (None, h2) \<and>
      mouseRelease h2 (mouse_event ((2, 5, 3), (0, -1, 0)) (0, 0, 0)) = (None, h3) \<and>
      bounds h3 = Some (BoundingBox (0, 1, 0) (3, 0, 4)) \<and>
      emitted h3 =
        [BoundsChanged (Some (BoundingBox (0, 1, 0) (3, 0, 4))),
         BoundsChangedDone (Some (BoundingBox (0, 1, 0) (3, 0, 4))) True])"
proof -
  let ?e = "mouse_event ((2, 5, 3), (0, -1, 0)) (0, 0, 0)"
  have a: "bounds BoxHandle_init = None" and b: "resizable BoxHandle_init"
    and em: "emitted BoxHandle_init = []"
    by (simp_all add: BoxHandle_init_def)
  have c: "\<not> moveModifierDown BoxHandle_init ?e" by simp
  have d: "blockPosition ?e = (0, 0, 0)" by (simp add: mouse_event_def)
  have i: "intersectPlane (ray ?e) 1 1 = (2, 1, 3)"
    using intersect_example by (simp add: mouse_event_def)
  from create_scenario [OF a b c c c d i refl, of fuc_miss] a b c d i em
  show ?thesis by simp
qed

text \<open>
  The claim that this scenario ends with the box of origin \<open>(0,0,0)\<close> and
  size \<open>(3,1,4)\<close> fails on a fresh handle: the final \<open>bounds\<close> is another box,
  since both flat boxes of the union lie in the plane Y = 1.
\<close>

theorem create_scenario_counterexample:
  "bounds BoxHandle_init = None \<and> resizable BoxHandle_init \<and>
   blockPosition (mouse_event ((2, 5, 3), (0, -1, 0)) (0, 0, 0)) = (0, 0, 0) \<and>
   intersectPlane (ray (mouse_event ((2, 5, 3), (0, -1, 0)) (0, 0, 0))) 1 1 = (2, 1, 3) \<and>
   fst (mouseMove fuc_miss
          (mousePress fuc_miss BoxHandle_init (mouse_event ((2, 5, 3), (0, -1, 0)) (0, 0, 0)))
          (mouse_event ((2, 5, 3), (0, -1, 0)) (0, 0, 0))) = None \<and>
   fst (mouseRelease
          (snd (mouseMove fuc_miss
                  (mousePress fuc_miss BoxHandle_init (mouse_event ((2, 5, 3), (0, -1, 0)) (0, 0, 0)))
                  (mouse_event ((2, 5, 3), (0, -1, 0)) (0, 0, 0))))
          (mouse_event ((2, 5, 3), (0, -1, 0)) (0, 0, 0))) = None \<and>
   bounds (snd (mouseRelease
          (snd (mouseMove fuc_miss
                  (mousePress fuc_miss BoxHandle_init (mouse_event ((2, 5, 3), (0, -1, 0)) (0, 0, 0)))
                  (mouse_event ((2, 5, 3), (0, -1, 0)) (0, 0, 0))))
          (mouse_event ((2, 5, 3), (0, -1, 0)) (0, 0, 0))))
     \<noteq> Some (BoundingBox (0, 0, 0) (3, 1, 4))"
proof -
  let ?e = "mouse_event ((2, 5, 3), (0, -1, 0)) (0, 0, 0)"
  let ?B = "BoundingBox (0, 1, 0) (3, 0, 4)"
  let ?hm = "(creating_handle (0, 0, 0))
               \<lparr>boxNode_selectionBox := Some ?B, faceDragNode_selectionBox := Some ?B,
                 emitted := [BoundsChanged (Some ?B)]\<rparr>"
  have re: "ray ?e = ((2, 5, 3), (0, -1, 0))" by (simp add: mouse_event_def)
  have c: "boxFromDragSelect (creating_handle (0, 0, 0)) (ray ?e) = Inr ?B"
    unfolding re
    by (rule boxFromDragSelect_scenario [OF _ _ intersect_example])
      (simp_all add: creating_handle_def)
  have c': "boxFromDragSelect ?hm (ray ?e) = Inr ?B"
    unfolding re
    by (rule boxFromDragSelect_scenario [OF _ _ intersect_example])
      (simp_all add: creating_handle_def)
  have move: "mouseMove fuc_miss (creating_handle (0, 0, 0)) ?e = (None, ?hm)"
    using c
    by (simp add: mouseMove_def continueCreate_def set_bounds_def updateMouseHover_def
        fuc_miss_def creating_handle_def BoxHandle_init_def)
  have rel: "fst (mouseRelease ?hm ?e) = None"
    "bounds (snd (mouseRelease ?hm ?e)) = Some ?B"
    using c'
    by (simp_all add: mouseRelease_def endCreate_def set_bounds_def Let_def
        creating_handle_def BoxHandle_init_def)
  have ne: "?B \<noteq> BoundingBox (0, 0, 0) (3, 1, 4)"
    by (simp add: BoundingBox_def)
  have i: "intersectPlane (ray ?e) 1 1 = (2, 1, 3)"
    unfolding re by (rule intersect_example)
  have st: "bounds BoxHandle_init = None \<and> resizable BoxHandle_init \<and> blockPosition ?e = (0, 0, 0)"
    by (simp add: BoxHandle_init_def mouse_event_def)
  show ?thesis
    using st i ne rel
    by (simp add: press_create_example move)
qed

end
